theory Spec2Isabelle
  imports Main "HOL-Library.Word"
begin

unbundle bit_operations_syntax

section \<open>The composition manager of the display engine (comp_manager.cpp)\<close>

text \<open>
  The class \<open>CompManager\<close> owns the registry of display devices, two bit sets over the
  display types (\<open>registered_displays_\<close>, \<open>configured_displays_\<close>), the flag
  \<open>safe_mode_\<close> and a pointer to the active strategy provider. It talks to three
  collaborators that live outside the file: the resource manager \<open>res_mgr_\<close>, the
  strategy provider behind \<open>strategy_intf_\<close>, and the dynamic loader. The embedding
  passes the manager as a record, takes the collaborators as a record of functions over
  their own (abstract) states, and returns \<open>None\<close> where the source dereferences a
  handle that points to no device or a null provider pointer.
  Member names lose their trailing underscore; \<open>safe_mode_\<close> becomes
  \<open>safe_mode_flag\<close>, since \<open>safe_mode\<close> is the field of the constraints.
\<close>

subsection \<open>Data\<close>

text \<open>\<open>Handle\<close> is \<open>void *\<close>: an address.\<close>

type_synonym Handle = nat

text \<open>Opaque inputs that the manager only hands on to the resource manager.\<close>

type_synonym HWResourceInfo = nat
type_synonym HWDeviceAttributes = nat

text \<open>
  Modelled from the spec: the enumeration \<open>DisplayError\<close> is declared in a header that is
  not part of the sources. The file names \<open>kErrorNone\<close> and \<open>kErrorMemory\<close>; every
  other enumerator is \<open>kErrorOther n\<close>.
\<close>

datatype DisplayError = kErrorNone | kErrorMemory | kErrorOther nat

text \<open>
  Modelled from the spec: the enumeration \<open>DeviceType\<close> (a small fixed enumeration of
  display types: primary, external, virtual) is declared in a missing header. Its
  enumerators are numbered from 0 and used as bit positions.
\<close>

datatype DeviceType = kPrimary | kHDMI | kVirtual

fun device_index :: "DeviceType \<Rightarrow> nat" where
  "device_index kPrimary = 0"
| "device_index kHDMI = 1"
| "device_index kVirtual = 2"

text \<open>
  Modelled from the spec: the macros \<open>SET_BIT\<close> and \<open>CLEAR_BIT\<close> of the missing
  \<open>utils/constants.h\<close> set and clear one bit of a 32-bit value:
  \<open>value |= (1 << bit)\<close> and \<open>value &= ~(1 << bit)\<close>.
\<close>

definition SET_BIT :: "32 word \<Rightarrow> nat \<Rightarrow> 32 word" where
  "SET_BIT v b = v OR push_bit b 1"

definition CLEAR_BIT :: "32 word \<Rightarrow> nat \<Rightarrow> 32 word" where
  "CLEAR_BIT v b = v AND NOT (push_bit b 1)"

record StrategyConstraints =
  safe_mode :: bool

text \<open>
  Of the layer structures the file reads only \<open>hw_layers->info.flags\<close>; the rest of
  \<open>HWLayersInfo\<close> and of \<open>HWLayers\<close> is opaque content of type \<open>'x\<close> (the
  composition plan that the provider writes, the hardware configuration that the
  resource manager writes).
\<close>

record 'x HWLayersInfo =
  flags :: "32 word"
  stack :: 'x

record 'x HWLayers =
  info :: "'x HWLayersInfo"
  config :: 'x

record CompManagerDevice =
  constraints :: StrategyConstraints
  res_mgr_device :: Handle
  device_type :: DeviceType

text \<open>The object that \<open>new CompManagerDevice()\<close> yields, before any field is assigned.\<close>

definition new_CompManagerDevice :: CompManagerDevice where
  "new_CompManagerDevice =
     \<lparr>constraints = \<lparr>safe_mode = False\<rparr>, res_mgr_device = 0, device_type = kPrimary\<rparr>"

text \<open>
  What \<open>strategy_intf_\<close> can point to: a provider object of the loaded library, or the
  member \<open>strategy_default_\<close>. The null pointer is \<open>None\<close>.
\<close>

datatype StrategyInterface = strategy_loaded Handle | strategy_default

text \<open>
  The entry function \<open>GetStrategyInterface\<close> of the library receives the address of
  \<open>strategy_intf_\<close>: it maps the pointer stored there to its error code and the pointer
  stored there afterwards.
\<close>

type_synonym GetStrategyInterface =
  "StrategyInterface option \<Rightarrow> DisplayError \<times> StrategyInterface option"

text \<open>
  Calls to the collaborators, in the order they are made. Each entry of the log pairs the
  call with the values of \<open>registered_displays_\<close>, \<open>configured_displays_\<close> and
  \<open>safe_mode_\<close> at the moment of the call.
\<close>

datatype call =
    Call_rm_Init
  | Call_dlopen
  | Call_dlsym Handle
  | Call_get_strategy_intf
  | Call_dlclose Handle
  | Call_rm_Deinit
  | Call_rm_RegisterDevice DeviceType
  | Call_rm_UnregisterDevice Handle
  | Call_rm_Start Handle
  | Call_GetNextStrategy StrategyInterface StrategyConstraints
  | Call_rm_Acquire Handle
  | Call_rm_Stop Handle
  | Call_rm_PostCommit Handle
  | Call_rm_Purge Handle

type_synonym snapshot = "32 word \<times> 32 word \<times> bool"

text \<open>
  The manager: its members, the state \<open>'r\<close> of the resource manager \<open>res_mgr_\<close>, the
  state \<open>'p\<close> of the strategy provider objects, the heap of \<open>CompManagerDevice\<close>
  objects, and the log of calls.
\<close>

record ('r, 'p) CompManager =
  strategy_lib :: "Handle option"
  strategy_intf :: "StrategyInterface option"
  registered_displays :: "32 word"
  configured_displays :: "32 word"
  safe_mode_flag :: bool
  res_mgr :: 'r
  strategy :: 'p
  devices :: "Handle \<rightharpoonup> CompManagerDevice"
  calls :: "(call \<times> snapshot) list"

text \<open>
  The collaborators. The resource manager's functions act on its state \<open>'r\<close>, the
  provider's \<open>GetNextStrategy\<close> on \<open>'p\<close>; it reads the constraints and rewrites the
  layer information. \<open>dlopen\<close> is the result of
  \<open>::dlopen(STRATEGY_LIBRARY_NAME, RTLD_NOW)\<close> and \<open>dlsym lib\<close> the result of
  \<open>::dlsym(lib, GET_STRATEGY_INTERFACE_NAME)\<close>, \<open>None\<close> being \<open>NULL\<close>.
\<close>

record ('r, 'p, 'x) collaborators =
  rm_Init :: "HWResourceInfo \<Rightarrow> 'r \<Rightarrow> DisplayError \<times> 'r"
  rm_Deinit :: "'r \<Rightarrow> 'r"
  rm_RegisterDevice :: "DeviceType \<Rightarrow> HWDeviceAttributes \<Rightarrow> 'r \<Rightarrow> DisplayError \<times> Handle \<times> 'r"
  rm_UnregisterDevice :: "Handle \<Rightarrow> 'r \<Rightarrow> 'r"
  rm_Start :: "Handle \<Rightarrow> 'r \<Rightarrow> 'r"
  rm_Acquire :: "Handle \<Rightarrow> 'x HWLayers \<Rightarrow> 'r \<Rightarrow> DisplayError \<times> 'x HWLayers \<times> 'r"
  rm_Stop :: "Handle \<Rightarrow> 'r \<Rightarrow> 'r"
  rm_PostCommit :: "Handle \<Rightarrow> 'x HWLayers \<Rightarrow> 'r \<Rightarrow> 'r"
  rm_Purge :: "Handle \<Rightarrow> 'r \<Rightarrow> 'r"
  GetNextStrategy :: "StrategyInterface \<Rightarrow> StrategyConstraints \<Rightarrow> 'x HWLayersInfo \<Rightarrow> 'p
                        \<Rightarrow> DisplayError \<times> 'x HWLayersInfo \<times> 'p"
  dlopen :: "Handle option"
  dlsym :: "Handle \<Rightarrow> GetStrategyInterface option"

definition log_call :: "call \<Rightarrow> ('r, 'p) CompManager \<Rightarrow> ('r, 'p) CompManager" where
  "log_call c s =
     s\<lparr>calls := calls s @ [(c, registered_displays s, configured_displays s, safe_mode_flag s)]\<rparr>"

subsection \<open>Construction, Init and Deinit\<close>

text \<open>The constructor: null pointers, empty bit sets, \<open>safe_mode_\<close> false.\<close>

definition CompManager_new :: "'r \<Rightarrow> 'p \<Rightarrow> ('r, 'p) CompManager" where
  "CompManager_new r p =
     \<lparr>strategy_lib = None, strategy_intf = None, registered_displays = 0,
      configured_displays = 0, safe_mode_flag = False, res_mgr = r, strategy = p,
      devices = Map.empty, calls = []\<rparr>"

text \<open>
  \<open>Init\<close>: the resource manager is initialised first and its error returned. Then the
  library is opened, the entry symbol resolved and the entry function called on
  \<open>&strategy_intf_\<close>; the error code of the entry function only selects a warning. After
  that the test is on the pointer: if \<open>strategy_intf_\<close> is null, an open library is
  closed and \<open>&strategy_default_\<close> is installed.
\<close>

definition Init ::
  "('r, 'p, 'x) collaborators \<Rightarrow> HWResourceInfo \<Rightarrow> ('r, 'p) CompManager
     \<Rightarrow> DisplayError \<times> ('r, 'p) CompManager" where
  "Init E hw_res_info s0 =
     (let (error, r1) = rm_Init E hw_res_info (res_mgr s0);
          s1 = (log_call Call_rm_Init s0)\<lparr>res_mgr := r1\<rparr>
      in if error \<noteq> kErrorNone then (error, s1)
         else
           let s2 = (log_call Call_dlopen s1)\<lparr>strategy_lib := dlopen E\<rparr>;
               s3 = (case strategy_lib s2 of
                       None \<Rightarrow> s2
                     | Some lib \<Rightarrow>
                         (case dlsym E lib of
                            None \<Rightarrow> log_call (Call_dlsym lib) s2
                          | Some get_strategy_intf \<Rightarrow>
                              (log_call Call_get_strategy_intf (log_call (Call_dlsym lib) s2))
                                \<lparr>strategy_intf := snd (get_strategy_intf (strategy_intf s2))\<rparr>));
               s4 = (if strategy_intf s3 = None
                     then (case strategy_lib s3 of
                             None \<Rightarrow> s3
                           | Some lib \<Rightarrow> (log_call (Call_dlclose lib) s3)\<lparr>strategy_lib := None\<rparr>)
                            \<lparr>strategy_intf := Some strategy_default\<rparr>
                     else s3)
           in (kErrorNone, s4))"

definition Deinit ::
  "('r, 'p, 'x) collaborators \<Rightarrow> ('r, 'p) CompManager \<Rightarrow> DisplayError \<times> ('r, 'p) CompManager" where
  "Deinit E s0 =
     (let s1 = (case strategy_lib s0 of
                  None \<Rightarrow> s0
                | Some lib \<Rightarrow> log_call (Call_dlclose lib) s0)
      in (kErrorNone, (log_call Call_rm_Deinit s1)\<lparr>res_mgr := rm_Deinit E (res_mgr s1)\<rparr>))"

subsection \<open>The device registry\<close>

text \<open>
  \<open>RegisterDevice\<close>. The argument \<open>new_result\<close> is the pointer that
  \<open>new CompManagerDevice()\<close> returned, \<open>None\<close> for null. The second component of the
  result is what the call stored in \<open>*device\<close>, \<open>None\<close> when it stored nothing.
\<close>

definition RegisterDevice ::
  "('r, 'p, 'x) collaborators \<Rightarrow> Handle option \<Rightarrow> DeviceType \<Rightarrow> HWDeviceAttributes
     \<Rightarrow> ('r, 'p) CompManager \<Rightarrow> DisplayError \<times> Handle option \<times> ('r, 'p) CompManager" where
  "RegisterDevice E new_result type attributes s0 =
     (case new_result of
        None \<Rightarrow> (kErrorMemory, None, s0)
      | Some comp_mgr_device \<Rightarrow>
          let (error, h, r1) = rm_RegisterDevice E type attributes (res_mgr s0);
              d1 = new_CompManagerDevice\<lparr>res_mgr_device := h\<rparr>;
              s1 = (log_call (Call_rm_RegisterDevice type) s0)
                     \<lparr>res_mgr := r1, devices := (devices s0)(comp_mgr_device \<mapsto> d1)\<rparr>
          in if error \<noteq> kErrorNone
             then (error, None, s1\<lparr>devices := (devices s1)(comp_mgr_device := None)\<rparr>)
             else
               let s2 = s1\<lparr>registered_displays :=
                             SET_BIT (registered_displays s1) (device_index type)\<rparr>;
                   s3 = s2\<lparr>devices := (devices s2)(comp_mgr_device \<mapsto> d1\<lparr>device_type := type\<rparr>)\<rparr>;
                   s4 = s3\<lparr>safe_mode_flag := True\<rparr>
               in (kErrorNone, Some comp_mgr_device, s4))"

definition UnregisterDevice ::
  "('r, 'p, 'x) collaborators \<Rightarrow> Handle \<Rightarrow> ('r, 'p) CompManager
     \<Rightarrow> (DisplayError \<times> ('r, 'p) CompManager) option" where
  "UnregisterDevice E device s0 =
     (case devices s0 device of
        None \<Rightarrow> None
      | Some comp_mgr_device \<Rightarrow>
          let s1 = (log_call (Call_rm_UnregisterDevice (res_mgr_device comp_mgr_device)) s0)
                     \<lparr>res_mgr := rm_UnregisterDevice E (res_mgr_device comp_mgr_device) (res_mgr s0)\<rparr>;
              s2 = s1\<lparr>registered_displays :=
                        CLEAR_BIT (registered_displays s1) (device_index (device_type comp_mgr_device))\<rparr>;
              s3 = s2\<lparr>configured_displays :=
                        CLEAR_BIT (configured_displays s2) (device_index (device_type comp_mgr_device))\<rparr>;
              s4 = s3\<lparr>devices := (devices s3)(device := None)\<rparr>
          in Some (kErrorNone, s4))"

subsection \<open>The refresh cycle\<close>

definition PrepareStrategyConstraints ::
  "Handle \<Rightarrow> 'x HWLayers \<Rightarrow> ('r, 'p) CompManager \<Rightarrow> ('r, 'p) CompManager option" where
  "PrepareStrategyConstraints device hw_layers s =
     (case devices s device of
        None \<Rightarrow> None
      | Some comp_mgr_device \<Rightarrow>
          let c1 = (constraints comp_mgr_device)\<lparr>safe_mode := safe_mode_flag s\<rparr>;
              c2 = (if flags (info hw_layers) \<noteq> 0 then c1\<lparr>safe_mode := True\<rparr> else c1)
          in Some (s\<lparr>devices := (devices s)(device \<mapsto> comp_mgr_device\<lparr>constraints := c2\<rparr>)\<rparr>))"

text \<open>
  The loop \<open>while (true)\<close> of \<open>Prepare\<close> leaves in two ways: \<open>return error\<close> when the
  provider reports an error, and \<open>break\<close> when the resource manager accepts the
  strategy. It need not leave at all, so the model counts iterations: \<open>None\<close> after
  \<open>n\<close> iterations without an exit.
\<close>

datatype loop_exit = Return DisplayError | Break

fun Prepare_loop ::
  "nat \<Rightarrow> ('r, 'p, 'x) collaborators \<Rightarrow> StrategyInterface \<Rightarrow> CompManagerDevice \<Rightarrow> 'x HWLayers
     \<Rightarrow> ('r, 'p) CompManager \<Rightarrow> (loop_exit \<times> 'x HWLayers \<times> ('r, 'p) CompManager) option" where
  "Prepare_loop 0 E intf comp_mgr_device hw_layers s = None"
| "Prepare_loop (Suc n) E intf comp_mgr_device hw_layers s =
     (let (error, info1, p1) =
            GetNextStrategy E intf (constraints comp_mgr_device) (info hw_layers) (strategy s);
          hw1 = hw_layers\<lparr>info := info1\<rparr>;
          s1 = (log_call (Call_GetNextStrategy intf (constraints comp_mgr_device)) s)
                 \<lparr>strategy := p1\<rparr>
      in if error \<noteq> kErrorNone then Some (Return error, hw1, s1)
         else
           let (error2, hw2, r2) = rm_Acquire E (res_mgr_device comp_mgr_device) hw1 (res_mgr s1);
               s2 = (log_call (Call_rm_Acquire (res_mgr_device comp_mgr_device)) s1)
                      \<lparr>res_mgr := r2\<rparr>
           in if error2 \<noteq> kErrorNone
              then Prepare_loop n E intf comp_mgr_device hw2 s2
              else Some (Break, hw2, s2))"

text \<open>
  \<open>Prepare\<close>: constraints, \<open>Start\<close>, the loop, and \<open>Stop\<close> after a \<open>break\<close>. The
  result is the error code, the layers as the collaborators left them, and the manager.
  \<open>None\<close>: the handle points to no device, \<open>strategy_intf_\<close> is null, or the loop has
  not left within \<open>n\<close> iterations.
\<close>

definition Prepare ::
  "nat \<Rightarrow> ('r, 'p, 'x) collaborators \<Rightarrow> Handle \<Rightarrow> 'x HWLayers \<Rightarrow> ('r, 'p) CompManager
     \<Rightarrow> (DisplayError \<times> 'x HWLayers \<times> ('r, 'p) CompManager) option" where
  "Prepare n E device hw_layers s0 =
     (case PrepareStrategyConstraints device hw_layers s0 of
        None \<Rightarrow> None
      | Some s1 \<Rightarrow>
          (case (devices s1 device, strategy_intf s1) of
             (Some comp_mgr_device, Some intf) \<Rightarrow>
               let s2 = (log_call (Call_rm_Start (res_mgr_device comp_mgr_device)) s1)
                          \<lparr>res_mgr := rm_Start E (res_mgr_device comp_mgr_device) (res_mgr s1)\<rparr>
               in (case Prepare_loop n E intf comp_mgr_device hw_layers s2 of
                     None \<Rightarrow> None
                   | Some (Return error, hw, s3) \<Rightarrow> Some (error, hw, s3)
                   | Some (Break, hw, s3) \<Rightarrow>
                       Some (kErrorNone, hw,
                             (log_call (Call_rm_Stop (res_mgr_device comp_mgr_device)) s3)
                               \<lparr>res_mgr := rm_Stop E (res_mgr_device comp_mgr_device) (res_mgr s3)\<rparr>))
           | _ \<Rightarrow> None))"

text \<open>
  \<open>PostCommit\<close>: the bit of the device's type is set in \<open>configured_displays_\<close>, the
  two sets are compared, and then the resource manager's \<open>PostCommit\<close> is called.
\<close>

definition PostCommit ::
  "('r, 'p, 'x) collaborators \<Rightarrow> Handle \<Rightarrow> 'x HWLayers \<Rightarrow> ('r, 'p) CompManager
     \<Rightarrow> ('r, 'p) CompManager option" where
  "PostCommit E device hw_layers s0 =
     (case devices s0 device of
        None \<Rightarrow> None
      | Some comp_mgr_device \<Rightarrow>
          let s1 = s0\<lparr>configured_displays :=
                        SET_BIT (configured_displays s0) (device_index (device_type comp_mgr_device))\<rparr>;
              s2 = (if configured_displays s1 = registered_displays s1
                    then s1\<lparr>safe_mode_flag := False\<rparr> else s1);
              s3 = (log_call (Call_rm_PostCommit (res_mgr_device comp_mgr_device)) s2)
                     \<lparr>res_mgr := rm_PostCommit E (res_mgr_device comp_mgr_device) hw_layers (res_mgr s2)\<rparr>
          in Some s3)"

definition Purge ::
  "('r, 'p, 'x) collaborators \<Rightarrow> Handle \<Rightarrow> ('r, 'p) CompManager \<Rightarrow> ('r, 'p) CompManager option" where
  "Purge E device s0 =
     (case devices s0 device of
        None \<Rightarrow> None
      | Some comp_mgr_device \<Rightarrow>
          Some ((log_call (Call_rm_Purge (res_mgr_device comp_mgr_device)) s0)
                  \<lparr>res_mgr := rm_Purge E (res_mgr_device comp_mgr_device) (res_mgr s0)\<rparr>))"

subsection \<open>Sequences of calls\<close>

text \<open>
  A client's calls to the registry and to \<open>PostCommit\<close>, each with its arguments (for
  \<open>RegisterDevice\<close> also the pointer that \<open>new\<close> returned), and the manager after one
  call and after a list of calls. \<open>None\<close>: a call dereferenced a handle that points to
  no device.
\<close>

datatype 'x request =
    Do_RegisterDevice "Handle option" DeviceType HWDeviceAttributes
  | Do_UnregisterDevice Handle
  | Do_PostCommit Handle "'x HWLayers"

fun step ::
  "('r, 'p, 'x) collaborators \<Rightarrow> 'x request \<Rightarrow> ('r, 'p) CompManager
     \<Rightarrow> ('r, 'p) CompManager option" where
  "step E (Do_RegisterDevice new_result type attributes) s =
     Some (snd (snd (RegisterDevice E new_result type attributes s)))"
| "step E (Do_UnregisterDevice device) s = map_option snd (UnregisterDevice E device s)"
| "step E (Do_PostCommit device hw_layers) s = PostCommit E device hw_layers s"

fun run ::
  "('r, 'p, 'x) collaborators \<Rightarrow> 'x request list \<Rightarrow> ('r, 'p) CompManager
     \<Rightarrow> ('r, 'p) CompManager option" where
  "run E [] s = Some s"
| "run E (c # cs) s = (case step E c s of None \<Rightarrow> None | Some s' \<Rightarrow> run E cs s')"

text \<open>
  The call targets a handle of a device whose type has its bit in
  \<open>registered_displays_\<close> (any \<open>RegisterDevice\<close> does), and a list of calls does so at
  every call.
\<close>

fun targets_registered :: "'x request \<Rightarrow> ('r, 'p) CompManager \<Rightarrow> bool" where
  "targets_registered (Do_RegisterDevice new_result type attributes) s = True"
| "targets_registered (Do_UnregisterDevice device) s =
     (case devices s device of
        None \<Rightarrow> False
      | Some d \<Rightarrow> bit (registered_displays s) (device_index (device_type d)))"
| "targets_registered (Do_PostCommit device hw_layers) s =
     (case devices s device of
        None \<Rightarrow> False
      | Some d \<Rightarrow> bit (registered_displays s) (device_index (device_type d)))"

fun well_targeted ::
  "('r, 'p, 'x) collaborators \<Rightarrow> 'x request list \<Rightarrow> ('r, 'p) CompManager \<Rightarrow> bool" where
  "well_targeted E [] s = True"
| "well_targeted E (c # cs) s =
     (targets_registered c s \<and>
      (case step E c s of None \<Rightarrow> False | Some s' \<Rightarrow> well_targeted E cs s'))"

text \<open>Every bit of \<open>c\<close> is a bit of \<open>r\<close>.\<close>

definition subset_bits :: "32 word \<Rightarrow> 32 word \<Rightarrow> bool" where
  "subset_bits c r = (c AND r = c)"

text \<open>
  The calls logged between two states of the manager, the constraints handed to the
  provider in a log, and whether a log leaves the session of a resource-manager device
  open: \<open>Start\<close> opens it, \<open>Stop\<close> closes it.
\<close>

definition new_calls :: "('r, 'p) CompManager \<Rightarrow> ('r, 'p) CompManager \<Rightarrow> (call \<times> snapshot) list" where
  "new_calls s s' = drop (length (calls s)) (calls s')"

fun provider_constraints :: "call list \<Rightarrow> StrategyConstraints list" where
  "provider_constraints [] = []"
| "provider_constraints (Call_GetNextStrategy intf c # cs) = c # provider_constraints cs"
| "provider_constraints (_ # cs) = provider_constraints cs"

fun session_open :: "Handle \<Rightarrow> bool \<Rightarrow> call list \<Rightarrow> bool" where
  "session_open h b [] = b"
| "session_open h b (Call_rm_Start k # cs) = session_open h (if k = h then True else b) cs"
| "session_open h b (Call_rm_Stop k # cs) = session_open h (if k = h then False else b) cs"
| "session_open h b (_ # cs) = session_open h b cs"

subsection \<open>The collaborators' side of the loop\<close>

text \<open>
  One round of the loop seen from the collaborators, for layers \<open>hw\<close>, provider state
  \<open>p\<close> and resource-manager state \<open>r\<close>: the provider's \<open>GetNextStrategy\<close> writes its
  next candidate into the layer information and the resource manager's \<open>Acquire\<close> is
  tried on it. The result is the provider's error code, the error code of \<open>Acquire\<close>,
  and the layers and the two states afterwards. \<open>after_offers k\<close> is where \<open>k\<close> such
  rounds lead.
\<close>

definition offer ::
  "('r, 'p, 'x) collaborators \<Rightarrow> StrategyInterface \<Rightarrow> CompManagerDevice
     \<Rightarrow> 'x HWLayers \<times> 'p \<times> 'r \<Rightarrow> DisplayError \<times> DisplayError \<times> 'x HWLayers \<times> 'p \<times> 'r" where
  "offer E intf d x =
     (case x of (hw, p, r) \<Rightarrow>
        (case GetNextStrategy E intf (constraints d) (info hw) p of (e, info1, p1) \<Rightarrow>
           (case rm_Acquire E (res_mgr_device d) (hw\<lparr>info := info1\<rparr>) r of (e2, hw2, r2) \<Rightarrow>
              (e, e2, hw2, p1, r2))))"

fun after_offers ::
  "('r, 'p, 'x) collaborators \<Rightarrow> StrategyInterface \<Rightarrow> CompManagerDevice \<Rightarrow> nat
     \<Rightarrow> 'x HWLayers \<times> 'p \<times> 'r \<Rightarrow> 'x HWLayers \<times> 'p \<times> 'r" where
  "after_offers E intf d 0 x = x"
| "after_offers E intf d (Suc k) x = after_offers E intf d k (snd (snd (offer E intf d x)))"

subsection \<open>Test doubles\<close>

text \<open>
  Modelled from the spec: the stub collaborators of its tests. The provider holds the
  list of candidate plans it can still offer in this cycle, hands out the first and
  reports an error when none is left. The resource manager keeps the list of open
  sessions and accepts exactly the plans that satisfy \<open>accept\<close>; its other calls
  succeed. No strategy library is installed.
\<close>

definition stub_collaborators :: "('x \<Rightarrow> bool) \<Rightarrow> (Handle list, 'x list, 'x) collaborators" where
  "stub_collaborators accept =
     \<lparr>rm_Init = (\<lambda>hw_res_info r. (kErrorNone, r)),
      rm_Deinit = (\<lambda>r. r),
      rm_RegisterDevice = (\<lambda>type attributes r. (kErrorNone, 100 + device_index type, r)),
      rm_UnregisterDevice = (\<lambda>h r. r),
      rm_Start = (\<lambda>h r. h # r),
      rm_Acquire = (\<lambda>h hw r.
         (if accept (stack (info hw)) then kErrorNone else kErrorOther 1, hw, r)),
      rm_Stop = (\<lambda>h r. removeAll h r),
      rm_PostCommit = (\<lambda>h hw r. r),
      rm_Purge = (\<lambda>h r. r),
      GetNextStrategy = (\<lambda>intf c i p.
         (case p of
            [] \<Rightarrow> (kErrorOther 0, i, [])
          | plan # plans \<Rightarrow> (kErrorNone, i\<lparr>stack := plan\<rparr>, plans))),
      dlopen = None,
      dlsym = (\<lambda>lib. None)\<rparr>"

text \<open>A resource manager that accepts every plan, and one that accepts the plans from \<open>k\<close> on.\<close>

definition accept_any :: "nat \<Rightarrow> bool" where
  "accept_any plan = True"

definition accept_from :: "nat \<Rightarrow> nat \<Rightarrow> bool" where
  "accept_from k plan = (k \<le> plan)"

text \<open>
  The stub with a strategy library installed at address 7 whose entry symbol resolves
  to \<open>entry\<close>, and an entry function that reports an error although it has stored a
  provider pointer.
\<close>

definition stub_with_library ::
  "GetStrategyInterface option \<Rightarrow> (Handle list, nat list, nat) collaborators" where
  "stub_with_library entry = (stub_collaborators accept_any)\<lparr>dlopen := Some 7, dlsym := (\<lambda>lib. entry)\<rparr>"

definition failing_GetStrategyInterface :: GetStrategyInterface where
  "failing_GetStrategyInterface p = (kErrorOther 1, Some (strategy_loaded 9))"

text \<open>
  A manager with one registered primary display at handle 1, initialised without a
  strategy library, whose provider has the candidates \<open>plans\<close> left; and layers with
  the given \<open>flags\<close>.
\<close>

definition one_display :: "nat list \<Rightarrow> (Handle list, nat list) CompManager" where
  "one_display plans =
     snd (snd (RegisterDevice (stub_collaborators accept_any) (Some 1) kPrimary 0
                 (snd (Init (stub_collaborators accept_any) 0 (CompManager_new [] plans)))))"

definition layers :: "32 word \<Rightarrow> nat HWLayers" where
  "layers f = \<lparr>info = \<lparr>flags = f, stack = 0\<rparr>, config = 0\<rparr>"

section \<open>Properties\<close>

subsection \<open>Bit sets, the example manager, and single calls\<close>

lemma bit_SET_BIT: "bit (SET_BIT v b) n \<longleftrightarrow> bit v n \<or> (n = b \<and> n < 32)"
  by (auto simp add: SET_BIT_def bit_simps)

lemma bit_CLEAR_BIT: "bit (CLEAR_BIT v b) n \<longleftrightarrow> bit v n \<and> n \<noteq> b"
  by (auto simp add: CLEAR_BIT_def bit_simps dest: bit_imp_le_length)

lemma SET_BIT_idem: "SET_BIT (SET_BIT v b) b = SET_BIT v b"
  by (simp add: SET_BIT_def ac_simps)

lemma SET_BIT_again: "SET_BIT c b = r \<Longrightarrow> SET_BIT r b = r"
  by (auto simp add: SET_BIT_idem)

lemma device_index_less: "device_index t < 32"
  by (cases t) simp_all

lemma subset_bits_iff: "subset_bits c r \<longleftrightarrow> (\<forall>n. bit c n \<longrightarrow> bit r n)"
proof
  assume a: "subset_bits c r"
  show "\<forall>n. bit c n \<longrightarrow> bit r n"
  proof (intro allI impI)
    fix n
    assume "bit c n"
    with a have "bit (c AND r) n"
      by (simp add: subset_bits_def)
    then show "bit r n"
      by (simp add: bit_and_iff)
  qed
next
  assume "\<forall>n. bit c n \<longrightarrow> bit r n"
  then show "subset_bits c r"
    unfolding subset_bits_def by (intro bit_eqI) (auto simp add: bit_and_iff)
qed

lemma subset_bits_zero: "subset_bits 0 r"
  by (simp add: subset_bits_def)

lemma subset_bits_refl: "subset_bits r r"
  by (simp add: subset_bits_def)

lemma subset_bits_SET_registered: "subset_bits c r \<Longrightarrow> subset_bits c (SET_BIT r b)"
  by (simp add: subset_bits_iff bit_SET_BIT)

lemma subset_bits_CLEAR_both: "subset_bits c r \<Longrightarrow> subset_bits (CLEAR_BIT c b) (CLEAR_BIT r b)"
  by (simp add: subset_bits_iff bit_CLEAR_BIT)

lemma subset_bits_SET_configured: "subset_bits c r \<Longrightarrow> bit r b \<Longrightarrow> subset_bits (SET_BIT c b) r"
  by (auto simp add: subset_bits_iff bit_SET_BIT)

lemma one_display_eq:
  "one_display plans =
     \<lparr>strategy_lib = None, strategy_intf = Some strategy_default, registered_displays = 1,
      configured_displays = 0, safe_mode_flag = True, res_mgr = [], strategy = plans,
      devices = [1 \<mapsto> \<lparr>constraints = \<lparr>safe_mode = False\<rparr>, res_mgr_device = 100, device_type = kPrimary\<rparr>],
      calls = [(Call_rm_Init, 0, 0, False), (Call_dlopen, 0, 0, False),
               (Call_rm_RegisterDevice kPrimary, 0, 0, False)]\<rparr>"
  by (simp add: one_display_def Init_def RegisterDevice_def stub_collaborators_def
        CompManager_new_def log_call_def new_CompManagerDevice_def SET_BIT_def Let_def)

lemma step_subset_bits:
  assumes "step E c s = Some s'" and "targets_registered c s"
    and "subset_bits (configured_displays s) (registered_displays s)"
  shows "subset_bits (configured_displays s') (registered_displays s')"
proof (cases c)
  case (Do_RegisterDevice new_result type attributes)
  with assms show ?thesis
    by (auto simp add: RegisterDevice_def log_call_def Let_def subset_bits_SET_registered
             split: option.splits prod.splits if_splits)
next
  case (Do_UnregisterDevice device)
  with assms show ?thesis
    by (auto simp add: UnregisterDevice_def log_call_def Let_def subset_bits_CLEAR_both
             split: option.splits)
next
  case (Do_PostCommit device hw_layers)
  with assms show ?thesis
    by (auto simp add: PostCommit_def log_call_def Let_def subset_bits_SET_configured
             subset_bits_refl split: option.splits if_splits)
qed

lemma run_subset_bits:
  "well_targeted E cs s \<Longrightarrow> subset_bits (configured_displays s) (registered_displays s)
     \<Longrightarrow> \<exists>s'. run E cs s = Some s' \<and> subset_bits (configured_displays s') (registered_displays s')"
proof (induction cs arbitrary: s)
  case Nil
  then show ?case by simp
next
  case (Cons c cs)
  from Cons.prems(1) obtain s1 where s1: "step E c s = Some s1"
    and t: "targets_registered c s" and w: "well_targeted E cs s1"
    by (auto split: option.splits)
  from step_subset_bits [OF s1 t Cons.prems(2)] Cons.IH [OF w] s1
  show ?case by simp
qed

lemma run_append:
  "run E (cs @ ds) s = (case run E cs s of None \<Rightarrow> None | Some s' \<Rightarrow> run E ds s')"
  by (induction cs arbitrary: s) (auto split: option.splits)

lemma step_safe_mode_flag:
  assumes "step E c s = Some s'"
  shows "(safe_mode_flag s \<and> \<not> safe_mode_flag s') \<longleftrightarrow>
         (\<exists>device hw_layers d. c = Do_PostCommit device hw_layers \<and> devices s device = Some d \<and>
            safe_mode_flag s \<and>
            SET_BIT (configured_displays s) (device_index (device_type d)) = registered_displays s)"
proof (cases c)
  case (Do_RegisterDevice new_result type attributes)
  with assms show ?thesis
    by (auto simp add: RegisterDevice_def log_call_def Let_def
             split: option.splits prod.splits if_splits)
next
  case (Do_UnregisterDevice device)
  with assms show ?thesis
    by (auto simp add: UnregisterDevice_def log_call_def Let_def split: option.splits)
next
  case (Do_PostCommit device hw_layers)
  with assms show ?thesis
    by (auto simp add: PostCommit_def log_call_def Let_def split: option.splits if_splits)
qed

subsection \<open>The registry and the safety flag\<close>

text \<open>
  C6. A call of \<open>RegisterDevice\<close> that returns \<open>kErrorNone\<close> has set the bit of the
  given display type in \<open>registered_displays_\<close>, has stored in \<open>*device\<close> the handle of the
  new device, which carries that type, and has set \<open>safe_mode_\<close> to true, whatever the
  flag and the configured displays were before.
\<close>

theorem RegisterDevice_success:
  assumes "RegisterDevice E new_result type attributes s = (kErrorNone, out, s')"
  shows "registered_displays s' = SET_BIT (registered_displays s) (device_index type)
         \<and> bit (registered_displays s') (device_index type)
         \<and> safe_mode_flag s'
         \<and> (\<exists>h d. new_result = Some h \<and> out = Some h \<and> devices s' h = Some d
                   \<and> device_type d = type)"
  using assms
  by (auto simp add: RegisterDevice_def log_call_def Let_def bit_SET_BIT device_index_less
           split: option.splits prod.splits if_splits)

theorem RegisterDevice_success_witness:
  "\<exists>s'. RegisterDevice (stub_collaborators accept_any) (Some 2) kHDMI 0 (one_display [])
           = (kErrorNone, Some 2, s')
        \<and> registered_displays s' = 3 \<and> safe_mode_flag s'
        \<and> map_option device_type (devices s' 2) = Some kHDMI"
proof -
  have "\<exists>s'. RegisterDevice (stub_collaborators accept_any) (Some 2) kHDMI 0 (one_display [])
           = (kErrorNone, Some 2, s')"
    by (simp add: RegisterDevice_def stub_collaborators_def Let_def)
  then obtain s' where r: "RegisterDevice (stub_collaborators accept_any) (Some 2) kHDMI 0
      (one_display []) = (kErrorNone, Some 2, s')" ..
  from RegisterDevice_success [OF r] r show ?thesis
    by (auto simp add: one_display_eq SET_BIT_def)
qed

text \<open>
  C7. If the resource manager's \<open>RegisterDevice\<close> fails inside the manager's
  \<open>RegisterDevice\<close>, the call returns the resource manager's error as it is, stores no
  handle, deletes the device it had allocated, and leaves \<open>registered_displays_\<close>,
  \<open>configured_displays_\<close>, \<open>safe_mode_\<close> and the provider pointers as they were.
\<close>

theorem RegisterDevice_arbiter_failure:
  assumes "new_result = Some p"
    and "rm_RegisterDevice E type attributes (res_mgr s) = (e, h, r)"
    and "e \<noteq> kErrorNone"
  shows "\<exists>s'. RegisterDevice E new_result type attributes s = (e, None, s')
           \<and> devices s' = (devices s)(p := None)
           \<and> registered_displays s' = registered_displays s
           \<and> configured_displays s' = configured_displays s
           \<and> safe_mode_flag s' = safe_mode_flag s
           \<and> strategy_lib s' = strategy_lib s
           \<and> strategy_intf s' = strategy_intf s"
  using assms
  by (simp add: RegisterDevice_def log_call_def Let_def)

theorem RegisterDevice_arbiter_failure_witness:
  "\<exists>s'. RegisterDevice ((stub_collaborators accept_any)
             \<lparr>rm_RegisterDevice := (\<lambda>type attributes r. (kErrorOther 7, 0, r))\<rparr>)
           (Some 2) kHDMI 0 (one_display []) = (kErrorOther 7, None, s')
        \<and> devices s' 2 = None \<and> registered_displays s' = 1 \<and> configured_displays s' = 0
        \<and> safe_mode_flag s'"
proof -
  have a: "rm_RegisterDevice ((stub_collaborators accept_any)
             \<lparr>rm_RegisterDevice := (\<lambda>type attributes r. (kErrorOther 7, 0, r))\<rparr>) kHDMI 0
             (res_mgr (one_display [])) = (kErrorOther 7, 0, [])"
    by (simp add: one_display_eq)
  from RegisterDevice_arbiter_failure [where new_result = "Some 2" and p = 2, OF refl a]
  show ?thesis
    by (auto simp add: one_display_eq)
qed

text \<open>
  C3. In every sequence of \<open>RegisterDevice\<close>, \<open>UnregisterDevice\<close> and \<open>PostCommit\<close>
  calls, a call changes \<open>safe_mode_\<close> from true (safe) to false (normal) if and only if
  it is a \<open>PostCommit\<close> made while the flag is true and after which, with the bit of the
  committing device's type set, \<open>configured_displays_\<close> equals
  \<open>registered_displays_\<close>. So no \<open>RegisterDevice\<close> and no \<open>UnregisterDevice\<close> clears
  the flag.
\<close>

theorem safe_mode_cleared_only_by_PostCommit:
  assumes "run E (cs @ [c]) s0 = Some s'"
  shows "\<exists>s. run E cs s0 = Some s \<and>
           ((safe_mode_flag s \<and> \<not> safe_mode_flag s') \<longleftrightarrow>
            (\<exists>device hw_layers d. c = Do_PostCommit device hw_layers \<and> devices s device = Some d \<and>
               safe_mode_flag s \<and>
               SET_BIT (configured_displays s) (device_index (device_type d)) = registered_displays s))"
proof -
  from assms obtain s where s: "run E cs s0 = Some s" and c: "step E c s = Some s'"
    by (auto simp add: run_append split: option.splits)
  from step_safe_mode_flag [OF c] s show ?thesis by simp
qed

theorem safe_mode_cleared_only_by_PostCommit_witness:
  "\<exists>s'. run (stub_collaborators accept_any) ([] @ [Do_PostCommit 1 (layers 0)])
            (one_display []) = Some s'
        \<and> safe_mode_flag (one_display []) \<and> \<not> safe_mode_flag s'"
proof -
  have "\<exists>s'. run (stub_collaborators accept_any) ([] @ [Do_PostCommit 1 (layers 0)])
            (one_display []) = Some s'"
    by (simp add: PostCommit_def one_display_eq Let_def)
  then obtain s' where r: "run (stub_collaborators accept_any)
      ([] @ [Do_PostCommit 1 (layers 0)]) (one_display []) = Some s'" ..
  have "\<exists>device hw_layers d. Do_PostCommit 1 (layers 0) = Do_PostCommit device hw_layers \<and>
      devices (one_display []) device = Some d \<and> safe_mode_flag (one_display []) \<and>
      SET_BIT (configured_displays (one_display [])) (device_index (device_type d)) =
        registered_displays (one_display [])"
    by (simp add: one_display_eq SET_BIT_def)
  with safe_mode_cleared_only_by_PostCommit [OF r] r show ?thesis
    by simp
qed

text \<open>
  C4. From the constructed manager (both bit sets empty), after every sequence of
  \<open>RegisterDevice\<close>, \<open>UnregisterDevice\<close> and \<open>PostCommit\<close> calls in which every
  \<open>UnregisterDevice\<close> and \<open>PostCommit\<close> targets a handle whose device type has its bit in
  \<open>registered_displays_\<close> at that moment, the sequence runs to its end and every bit of
  \<open>configured_displays_\<close> is a bit of \<open>registered_displays_\<close>.
\<close>

theorem configured_subset_registered:
  assumes "well_targeted E cs (CompManager_new r p)"
  shows "\<exists>s. run E cs (CompManager_new r p) = Some s \<and>
           subset_bits (configured_displays s) (registered_displays s) \<and>
           (\<forall>n. bit (configured_displays s) n \<longrightarrow> bit (registered_displays s) n)"
proof -
  have "subset_bits (configured_displays (CompManager_new r p)) (registered_displays (CompManager_new r p))"
    by (simp add: CompManager_new_def subset_bits_zero)
  from run_subset_bits [OF assms this] show ?thesis
    by (auto simp add: subset_bits_iff)
qed

theorem configured_subset_registered_witness:
  "\<exists>s. run (stub_collaborators accept_any)
           [Do_RegisterDevice (Some 1) kPrimary 0, Do_RegisterDevice (Some 2) kHDMI 0,
            Do_PostCommit 2 (layers 0), Do_UnregisterDevice 1]
           (CompManager_new [] []) = Some s
       \<and> subset_bits (configured_displays s) (registered_displays s)"
proof -
  have "well_targeted (stub_collaborators accept_any)
           [Do_RegisterDevice (Some 1) kPrimary 0, Do_RegisterDevice (Some 2) kHDMI 0,
            Do_PostCommit 2 (layers 0), Do_UnregisterDevice 1]
           (CompManager_new [] [])"
    by (simp add: RegisterDevice_def PostCommit_def UnregisterDevice_def stub_collaborators_def
          CompManager_new_def log_call_def new_CompManagerDevice_def SET_BIT_def CLEAR_BIT_def
          Let_def)
  from configured_subset_registered [OF this] show ?thesis
    by blast
qed

text \<open>
  C10. For every manager and every handle of a live device, a second \<open>PostCommit\<close>
  for the same device right after the first leaves \<open>registered_displays_\<close>,
  \<open>configured_displays_\<close> and \<open>safe_mode_\<close> as the first call left them.
\<close>

theorem PostCommit_idempotent:
  assumes "devices s device = Some d"
  shows "\<exists>s1 s2. PostCommit E device hw s = Some s1 \<and> PostCommit E device hw s1 = Some s2
           \<and> registered_displays s2 = registered_displays s1
           \<and> configured_displays s2 = configured_displays s1
           \<and> safe_mode_flag s2 = safe_mode_flag s1"
proof (cases "SET_BIT (configured_displays s) (device_index (device_type d)) = registered_displays s")
  case True
  with assms show ?thesis
    by (simp add: PostCommit_def log_call_def Let_def SET_BIT_again)
next
  case False
  with assms show ?thesis
    by (simp add: PostCommit_def log_call_def Let_def SET_BIT_idem)
qed

theorem PostCommit_idempotent_witness:
  "\<exists>s1 s2. PostCommit (stub_collaborators accept_any) 1 (layers 0) (one_display []) = Some s1
        \<and> PostCommit (stub_collaborators accept_any) 1 (layers 0) s1 = Some s2
        \<and> registered_displays s2 = registered_displays s1
        \<and> configured_displays s2 = configured_displays s1
        \<and> safe_mode_flag s2 = safe_mode_flag s1
        \<and> devices (one_display []) 1 \<noteq> None"
proof -
  have d: "devices (one_display []) 1 =
      Some \<lparr>constraints = \<lparr>safe_mode = False\<rparr>, res_mgr_device = 100, device_type = kPrimary\<rparr>"
    by (simp add: one_display_eq)
  from PostCommit_idempotent [OF d] d show ?thesis
    by simp
qed

subsection \<open>The loop of \<open>Prepare\<close>\<close>

lemma provider_constraints_append:
  "provider_constraints (xs @ ys) = provider_constraints xs @ provider_constraints ys"
  by (induction xs rule: provider_constraints.induct) simp_all

lemma session_open_append:
  "session_open h b (xs @ ys) = session_open h (session_open h b xs) ys"
  by (induction h b xs rule: session_open.induct) simp_all

text \<open>The loop touches the provider, the resource manager and the log, nothing else.\<close>

lemma Prepare_loop_frame:
  "Prepare_loop n E intf d hw s = Some (ex, hw', s') \<Longrightarrow>
     safe_mode_flag s' = safe_mode_flag s \<and> registered_displays s' = registered_displays s \<and>
     configured_displays s' = configured_displays s \<and> devices s' = devices s \<and>
     strategy_intf s' = strategy_intf s \<and> strategy_lib s' = strategy_lib s"
proof (induction n arbitrary: hw s)
  case 0
  then show ?case by simp
next
  case (Suc n)
  obtain error info1 p1 where g:
    "GetNextStrategy E intf (constraints d) (info hw) (strategy s) = (error, info1, p1)"
    by (cases "GetNextStrategy E intf (constraints d) (info hw) (strategy s)") auto
  show ?case
  proof (cases "error = kErrorNone")
    case False
    with Suc.prems g show ?thesis
      by (auto simp add: log_call_def)
  next
    case True
    obtain error2 hw2 r2 where a:
      "rm_Acquire E (res_mgr_device d) (hw\<lparr>info := info1\<rparr>) (res_mgr s) = (error2, hw2, r2)"
      by (cases "rm_Acquire E (res_mgr_device d) (hw\<lparr>info := info1\<rparr>) (res_mgr s)") auto
    show ?thesis
    proof (cases "error2 = kErrorNone")
      case True
      with Suc.prems g a \<open>error = kErrorNone\<close> show ?thesis
        by (auto simp add: log_call_def)
    next
      case False
      with Suc.prems g a \<open>error = kErrorNone\<close>
      have "Prepare_loop n E intf d hw2
              ((log_call (Call_rm_Acquire (res_mgr_device d))
                 ((log_call (Call_GetNextStrategy intf (constraints d)) s)\<lparr>strategy := p1\<rparr>))
               \<lparr>res_mgr := r2\<rparr>) = Some (ex, hw', s')"
        by (simp add: log_call_def)
      from Suc.IH [OF this] show ?thesis
        by (simp add: log_call_def)
    qed
  qed
qed

text \<open>
  The calls of the loop: \<open>k\<close> rounds of \<open>GetNextStrategy\<close> and \<open>Acquire\<close>, then a
  last round, which lacks the \<open>Acquire\<close> when the loop leaves by \<open>return\<close>; and the
  loop returns errors only.
\<close>

lemma Prepare_loop_calls:
  "Prepare_loop n E intf d hw s = Some (ex, hw', s') \<Longrightarrow>
     \<exists>k cs. k < n \<and> calls s' = calls s @ cs \<and>
       map fst cs =
         concat (replicate k [Call_GetNextStrategy intf (constraints d),
                              Call_rm_Acquire (res_mgr_device d)]) @
         (case ex of
            Return e \<Rightarrow> [Call_GetNextStrategy intf (constraints d)]
          | Break \<Rightarrow> [Call_GetNextStrategy intf (constraints d), Call_rm_Acquire (res_mgr_device d)])
       \<and> ex \<noteq> Return kErrorNone"
proof (induction n arbitrary: hw s)
  case 0
  then show ?case by simp
next
  case (Suc n)
  let ?G = "Call_GetNextStrategy intf (constraints d)"
  let ?A = "Call_rm_Acquire (res_mgr_device d)"
  let ?last = "case ex of Return e \<Rightarrow> [?G] | Break \<Rightarrow> [?G, ?A]"
  obtain error info1 p1 where g:
    "GetNextStrategy E intf (constraints d) (info hw) (strategy s) = (error, info1, p1)"
    by (cases "GetNextStrategy E intf (constraints d) (info hw) (strategy s)") auto
  obtain error2 hw2 r2 where a:
    "rm_Acquire E (res_mgr_device d) (hw\<lparr>info := info1\<rparr>) (res_mgr s) = (error2, hw2, r2)"
    by (cases "rm_Acquire E (res_mgr_device d) (hw\<lparr>info := info1\<rparr>) (res_mgr s)") auto
  show ?case
  proof (cases "error = kErrorNone \<and> error2 \<noteq> kErrorNone")
    case False
    have "\<exists>cs. calls s' = calls s @ cs \<and> map fst cs = concat (replicate 0 [?G, ?A]) @ ?last
            \<and> ex \<noteq> Return kErrorNone"
    proof (cases "error = kErrorNone")
      case True
      with False have "error2 = kErrorNone" by simp
      with Suc.prems g a True show ?thesis
        by (auto simp add: log_call_def)
    next
      case False
      with Suc.prems g show ?thesis
        by (auto simp add: log_call_def)
    qed
    then show ?thesis by blast
  next
    case True
    with Suc.prems g a
    have "Prepare_loop n E intf d hw2
            ((log_call ?A ((log_call ?G s)\<lparr>strategy := p1\<rparr>))\<lparr>res_mgr := r2\<rparr>)
          = Some (ex, hw', s')"
      by (simp add: log_call_def)
    from Suc.IH [OF this] obtain k cs where k: "k < n"
      and c: "calls s' = (calls s @ [(?G, registered_displays s, configured_displays s, safe_mode_flag s),
                (?A, registered_displays s, configured_displays s, safe_mode_flag s)]) @ cs"
      and m: "map fst cs = concat (replicate k [?G, ?A]) @ ?last"
      and e: "ex \<noteq> Return kErrorNone"
      by (auto simp add: log_call_def)
    let ?cs = "[(?G, registered_displays s, configured_displays s, safe_mode_flag s),
                (?A, registered_displays s, configured_displays s, safe_mode_flag s)] @ cs"
    from k c m e have "Suc k < Suc n \<and> calls s' = calls s @ ?cs \<and>
        map fst ?cs = concat (replicate (Suc k) [?G, ?A]) @ ?last \<and> ex \<noteq> Return kErrorNone"
      by simp
    then show ?thesis by blast
  qed
qed

text \<open>
  For any collaborators: if the first \<open>k\<close> rounds offer a candidate that \<open>Acquire\<close>
  rejects and round \<open>k + 1\<close> offers one that it accepts, the loop leaves by \<open>break\<close>
  in that round, with the layers and the states of that round.
\<close>

lemma Prepare_loop_offers:
  assumes "\<forall>i<k. fst (offer E intf d (after_offers E intf d i (hw, strategy s, res_mgr s))) = kErrorNone
              \<and> fst (snd (offer E intf d (after_offers E intf d i (hw, strategy s, res_mgr s)))) \<noteq> kErrorNone"
    and "offer E intf d (after_offers E intf d k (hw, strategy s, res_mgr s)) =
           (kErrorNone, kErrorNone, hwN, pN, rN)"
    and "k < n"
  shows "\<exists>s' cs. Prepare_loop n E intf d hw s = Some (Break, hwN, s')
           \<and> strategy s' = pN \<and> res_mgr s' = rN
           \<and> calls s' = calls s @ cs
           \<and> map fst cs = concat (replicate (Suc k)
                 [Call_GetNextStrategy intf (constraints d), Call_rm_Acquire (res_mgr_device d)])"
  using assms
proof (induction k arbitrary: n hw s)
  case 0
  then obtain m where "n = Suc m"
    by (cases n) auto
  with 0 show ?case
    by (auto simp add: offer_def log_call_def split: prod.splits)
next
  case (Suc k)
  let ?G = "Call_GetNextStrategy intf (constraints d)"
  let ?A = "Call_rm_Acquire (res_mgr_device d)"
  from Suc.prems obtain m where n: "n = Suc m" and m: "k < m"
    by (cases n) auto
  obtain e e2 hw2 p1 r2 where o: "offer E intf d (hw, strategy s, res_mgr s) = (e, e2, hw2, p1, r2)"
    by (cases "offer E intf d (hw, strategy s, res_mgr s)") auto
  from Suc.prems(1) have "fst (offer E intf d (after_offers E intf d 0 (hw, strategy s, res_mgr s))) = kErrorNone
      \<and> fst (snd (offer E intf d (after_offers E intf d 0 (hw, strategy s, res_mgr s)))) \<noteq> kErrorNone"
    by blast
  with o have e: "e = kErrorNone" and e2: "e2 \<noteq> kErrorNone"
    by simp_all
  let ?s2 = "(log_call ?A ((log_call ?G s)\<lparr>strategy := p1\<rparr>))\<lparr>res_mgr := r2\<rparr>"
  from o e e2 have step: "Prepare_loop n E intf d hw s = Prepare_loop m E intf d hw2 ?s2"
    by (auto simp add: n offer_def log_call_def split: prod.splits)
  have x: "(hw2, strategy ?s2, res_mgr ?s2) = snd (snd (offer E intf d (hw, strategy s, res_mgr s)))"
    using o by (simp add: log_call_def)
  have rej: "\<forall>i<k. fst (offer E intf d (after_offers E intf d i (hw2, strategy ?s2, res_mgr ?s2))) = kErrorNone
              \<and> fst (snd (offer E intf d (after_offers E intf d i (hw2, strategy ?s2, res_mgr ?s2)))) \<noteq> kErrorNone"
  proof (intro allI impI)
    fix i
    assume "i < k"
    then have "Suc i < Suc k" by simp
    with Suc.prems(1) show "fst (offer E intf d (after_offers E intf d i (hw2, strategy ?s2, res_mgr ?s2))) = kErrorNone
              \<and> fst (snd (offer E intf d (after_offers E intf d i (hw2, strategy ?s2, res_mgr ?s2)))) \<noteq> kErrorNone"
      unfolding x by (metis after_offers.simps(2))
  qed
  have acc: "offer E intf d (after_offers E intf d k (hw2, strategy ?s2, res_mgr ?s2)) =
           (kErrorNone, kErrorNone, hwN, pN, rN)"
    using Suc.prems(2) unfolding x by simp
  from Suc.IH [OF rej acc m] obtain s' cs where
    l: "Prepare_loop m E intf d hw2 ?s2 = Some (Break, hwN, s')"
    and r: "strategy s' = pN" "res_mgr s' = rN"
    and c: "calls s' = calls ?s2 @ cs"
    and mc: "map fst cs = concat (replicate (Suc k) [?G, ?A])"
    by blast
  let ?cs = "[(?G, registered_displays s, configured_displays s, safe_mode_flag s),
              (?A, registered_displays s, configured_displays s, safe_mode_flag s)] @ cs"
  show ?case
  proof (intro exI conjI)
    show "Prepare_loop n E intf d hw s = Some (Break, hwN, s')"
      using step l by simp
    show "strategy s' = pN" "res_mgr s' = rN"
      by (rule r)+
    show "calls s' = calls s @ ?cs"
      using c by (simp add: log_call_def)
    show "map fst ?cs = concat (replicate (Suc (Suc k)) [?G, ?A])"
      using mc by simp
  qed
qed

lemma provider_constraints_rounds:
  "provider_constraints (concat (replicate k [Call_GetNextStrategy intf c, Call_rm_Acquire h])) =
     replicate k c"
  by (induction k) simp_all

lemma session_open_rounds:
  "session_open h b (concat (replicate k [Call_GetNextStrategy intf c, Call_rm_Acquire g])) = b"
  by (induction k) simp_all

lemma count_list_rounds:
  "count_list (concat (replicate k [Call_GetNextStrategy intf c, Call_rm_Acquire g]))
     (Call_rm_Acquire g) = k"
  by (induction k) simp_all

text \<open>\<open>Prepare\<close> for a live device and a provider, as its loop on the prepared state.\<close>

lemma Prepare_unfold:
  assumes "devices s device = Some d" and "strategy_intf s = Some intf"
    and "d1 = d\<lparr>constraints := (constraints d)\<lparr>safe_mode := (safe_mode_flag s \<or> flags (info hw) \<noteq> 0)\<rparr>\<rparr>"
    and "s2 = (log_call (Call_rm_Start (res_mgr_device d)) (s\<lparr>devices := (devices s)(device \<mapsto> d1)\<rparr>))
                \<lparr>res_mgr := rm_Start E (res_mgr_device d) (res_mgr s)\<rparr>"
  shows "Prepare n E device hw s =
           (case Prepare_loop n E intf d1 hw s2 of
              None \<Rightarrow> None
            | Some (Return error, hw', s3) \<Rightarrow> Some (error, hw', s3)
            | Some (Break, hw', s3) \<Rightarrow>
                Some (kErrorNone, hw',
                      (log_call (Call_rm_Stop (res_mgr_device d)) s3)
                        \<lparr>res_mgr := rm_Stop E (res_mgr_device d) (res_mgr s3)\<rparr>))"
proof (cases "flags (info hw) = 0")
  case True
  with assms show ?thesis
    by (simp add: Prepare_def PrepareStrategyConstraints_def Let_def log_call_def
          split: option.splits loop_exit.splits)
next
  case False
  with assms show ?thesis
    by (simp add: Prepare_def PrepareStrategyConstraints_def Let_def log_call_def
          split: option.splits loop_exit.splits)
qed

text \<open>
  The calls of one \<open>Prepare\<close>: \<open>Start\<close>, the rounds of the loop, and \<open>Stop\<close> exactly
  when the result is \<open>kErrorNone\<close>. The bit sets and the flag stay as they were.
\<close>

lemma Prepare_calls:
  assumes "Prepare n E device hw s = Some (e, hw', s')"
    and "devices s device = Some d" and "strategy_intf s = Some intf"
    and "c = (constraints d)\<lparr>safe_mode := (safe_mode_flag s \<or> flags (info hw) \<noteq> 0)\<rparr>"
  shows "\<exists>k. k < n \<and>
           map fst (new_calls s s') =
             Call_rm_Start (res_mgr_device d) #
             concat (replicate k [Call_GetNextStrategy intf c, Call_rm_Acquire (res_mgr_device d)]) @
             (if e = kErrorNone
              then [Call_GetNextStrategy intf c, Call_rm_Acquire (res_mgr_device d),
                    Call_rm_Stop (res_mgr_device d)]
              else [Call_GetNextStrategy intf c])"
    and "safe_mode_flag s' = safe_mode_flag s"
    and "registered_displays s' = registered_displays s"
    and "configured_displays s' = configured_displays s"
proof -
  let ?d1 = "d\<lparr>constraints := c\<rparr>"
  let ?s2 = "(log_call (Call_rm_Start (res_mgr_device d)) (s\<lparr>devices := (devices s)(device \<mapsto> ?d1)\<rparr>))
                \<lparr>res_mgr := rm_Start E (res_mgr_device d) (res_mgr s)\<rparr>"
  note u = Prepare_unfold [OF assms(2,3), of ?d1 hw ?s2 E n, unfolded assms(4) [symmetric], OF refl refl]
  from assms(1) u obtain ex s3 where l: "Prepare_loop n E intf ?d1 hw ?s2 = Some (ex, hw', s3)"
    and r: "(ex = Break \<and> e = kErrorNone \<and>
             s' = (log_call (Call_rm_Stop (res_mgr_device d)) s3)
                    \<lparr>res_mgr := rm_Stop E (res_mgr_device d) (res_mgr s3)\<rparr>)
            \<or> (ex = Return e \<and> s' = s3)"
    by (auto split: option.splits loop_exit.splits)
  from Prepare_loop_calls [OF l] obtain k cs where k: "k < n"
    and cs: "calls s3 = calls ?s2 @ cs"
    and m: "map fst cs =
         concat (replicate k [Call_GetNextStrategy intf (constraints ?d1),
                              Call_rm_Acquire (res_mgr_device ?d1)]) @
         (case ex of
            Return e \<Rightarrow> [Call_GetNextStrategy intf (constraints ?d1)]
          | Break \<Rightarrow> [Call_GetNextStrategy intf (constraints ?d1),
                      Call_rm_Acquire (res_mgr_device ?d1)])"
    and ne: "ex \<noteq> Return kErrorNone"
    by blast
  from r cs m ne have "map fst (new_calls s s') =
             Call_rm_Start (res_mgr_device d) #
             concat (replicate k [Call_GetNextStrategy intf c, Call_rm_Acquire (res_mgr_device d)]) @
             (if e = kErrorNone
              then [Call_GetNextStrategy intf c, Call_rm_Acquire (res_mgr_device d),
                    Call_rm_Stop (res_mgr_device d)]
              else [Call_GetNextStrategy intf c])"
    by (auto simp add: new_calls_def log_call_def)
  with k show "\<exists>k. k < n \<and>
           map fst (new_calls s s') =
             Call_rm_Start (res_mgr_device d) #
             concat (replicate k [Call_GetNextStrategy intf c, Call_rm_Acquire (res_mgr_device d)]) @
             (if e = kErrorNone
              then [Call_GetNextStrategy intf c, Call_rm_Acquire (res_mgr_device d),
                    Call_rm_Stop (res_mgr_device d)]
              else [Call_GetNextStrategy intf c])"
    by (intro exI [where x = k] conjI)
  from Prepare_loop_frame [OF l] r
  show "safe_mode_flag s' = safe_mode_flag s" "registered_displays s' = registered_displays s"
    "configured_displays s' = configured_displays s"
    by (auto simp add: log_call_def)
qed

lemma Prepare_Some_live:
  "Prepare n E device hw s = Some res \<Longrightarrow> \<exists>d intf. devices s device = Some d \<and> strategy_intf s = Some intf"
  by (auto simp add: Prepare_def PrepareStrategyConstraints_def Let_def
           split: option.splits if_splits)

text \<open>The session of the device is left open exactly when \<open>Prepare\<close> returns an error.\<close>

lemma Prepare_session_open:
  assumes "Prepare n E device hw s = Some (e, hw', s')" and "devices s device = Some d"
  shows "session_open (res_mgr_device d) b (map fst (new_calls s s')) = (e \<noteq> kErrorNone)"
proof -
  from Prepare_Some_live [OF assms(1)] obtain intf where i: "strategy_intf s = Some intf"
    by auto
  from Prepare_calls(1) [OF assms(1,2) i refl] show ?thesis
    by (auto simp add: session_open_append session_open_rounds)
qed

subsection \<open>The refresh cycle\<close>

text \<open>
  C8. When the layers of a \<open>Prepare\<close> call carry the validation-failure signal
  (\<open>hw_layers->info.flags\<close> is not zero), the provider is called at least once, every
  call of \<open>GetNextStrategy\<close> in that \<open>Prepare\<close> receives constraints with
  \<open>safe_mode\<close> true, whatever \<open>safe_mode_\<close> is, and \<open>safe_mode_\<close> is after the call
  what it was before; \<open>PrepareStrategyConstraints\<close> alone sets the constraint of the
  device and leaves the flag.
\<close>

theorem validation_failure_forces_safe_constraints:
  assumes "flags (info hw) \<noteq> 0" and "Prepare n E device hw s = Some (e, hw', s')"
  shows "provider_constraints (map fst (new_calls s s')) \<noteq> []
         \<and> (\<forall>c \<in> set (provider_constraints (map fst (new_calls s s'))). safe_mode c)
         \<and> safe_mode_flag s' = safe_mode_flag s
         \<and> (\<exists>s1 d1. PrepareStrategyConstraints device hw s = Some s1 \<and> devices s1 device = Some d1
               \<and> safe_mode (constraints d1) \<and> safe_mode_flag s1 = safe_mode_flag s)"
proof -
  from Prepare_Some_live [OF assms(2)] obtain d intf
    where d: "devices s device = Some d" and i: "strategy_intf s = Some intf"
    by auto
  let ?c = "(constraints d)\<lparr>safe_mode := (safe_mode_flag s \<or> flags (info hw) \<noteq> 0)\<rparr>"
  from Prepare_calls(1) [OF assms(2) d i refl] obtain k where
    "map fst (new_calls s s') =
       Call_rm_Start (res_mgr_device d) #
       concat (replicate k [Call_GetNextStrategy intf ?c, Call_rm_Acquire (res_mgr_device d)]) @
       (if e = kErrorNone
        then [Call_GetNextStrategy intf ?c, Call_rm_Acquire (res_mgr_device d),
              Call_rm_Stop (res_mgr_device d)]
        else [Call_GetNextStrategy intf ?c])"
    by auto
  then have p: "provider_constraints (map fst (new_calls s s')) = replicate k ?c @ [?c]"
    by (simp add: provider_constraints_append provider_constraints_rounds)
  from assms(1) have "safe_mode ?c"
    by simp
  with p have "provider_constraints (map fst (new_calls s s')) \<noteq> []"
    and "\<forall>c \<in> set (provider_constraints (map fst (new_calls s s'))). safe_mode c"
    by auto
  moreover from Prepare_calls(2) [OF assms(2) d i refl]
  have "safe_mode_flag s' = safe_mode_flag s" .
  moreover from d assms(1)
  have "\<exists>s1 d1. PrepareStrategyConstraints device hw s = Some s1 \<and> devices s1 device = Some d1
               \<and> safe_mode (constraints d1) \<and> safe_mode_flag s1 = safe_mode_flag s"
    by (simp add: PrepareStrategyConstraints_def)
  ultimately show ?thesis
    by blast
qed

lemma Prepare_validation_failure_example:
  "Prepare 3 (stub_collaborators (accept_from 30)) 1 (layers 4)
       ((one_display [10, 20, 30, 40])\<lparr>safe_mode_flag := False\<rparr>) =
     Some (kErrorNone, \<lparr>info = \<lparr>flags = 4, stack = 30\<rparr>, config = 0\<rparr>,
       (one_display [10, 20, 30, 40])
       \<lparr>safe_mode_flag := False, strategy := [40],
        devices := [1 \<mapsto> \<lparr>constraints = \<lparr>safe_mode = True\<rparr>, res_mgr_device = 100,
                          device_type = kPrimary\<rparr>],
        calls := calls (one_display [10, 20, 30, 40]) @
          [(Call_rm_Start 100, 1, 0, False),
           (Call_GetNextStrategy strategy_default \<lparr>safe_mode = True\<rparr>, 1, 0, False),
           (Call_rm_Acquire 100, 1, 0, False),
           (Call_GetNextStrategy strategy_default \<lparr>safe_mode = True\<rparr>, 1, 0, False),
           (Call_rm_Acquire 100, 1, 0, False),
           (Call_GetNextStrategy strategy_default \<lparr>safe_mode = True\<rparr>, 1, 0, False),
           (Call_rm_Acquire 100, 1, 0, False),
           (Call_rm_Stop 100, 1, 0, False)]\<rparr>)"
  by (simp add: Prepare_def PrepareStrategyConstraints_def one_display_eq layers_def
        stub_collaborators_def accept_from_def log_call_def Let_def numeral_3_eq_3)

theorem validation_failure_forces_safe_constraints_witness:
  "flags (info (layers 4)) \<noteq> 0
   \<and> (\<exists>s'. Prepare 3 (stub_collaborators (accept_from 30)) 1 (layers 4)
              ((one_display [10, 20, 30, 40])\<lparr>safe_mode_flag := False\<rparr>)
            = Some (kErrorNone, \<lparr>info = \<lparr>flags = 4, stack = 30\<rparr>, config = 0\<rparr>, s')
          \<and> provider_constraints (map fst
                (new_calls ((one_display [10, 20, 30, 40])\<lparr>safe_mode_flag := False\<rparr>) s'))
              = [\<lparr>safe_mode = True\<rparr>, \<lparr>safe_mode = True\<rparr>, \<lparr>safe_mode = True\<rparr>]
          \<and> \<not> safe_mode_flag s')"
proof -
  have f: "flags (info (layers 4)) \<noteq> 0"
    by (simp add: layers_def)
  note p = Prepare_validation_failure_example
  from validation_failure_forces_safe_constraints [OF f p] f p show ?thesis
    by (simp add: new_calls_def one_display_eq)
qed

text \<open>
  C5. For any provider and any resource manager: if, in the cycle of this \<open>Prepare\<close>
  (from the layers of the call, the provider's state and the resource manager's state
  after \<open>Start\<close>), the provider offers \<open>N\<close> candidates of which \<open>Acquire\<close> rejects
  the first \<open>N - 1\<close> and accepts the last, then \<open>Prepare\<close> returns \<open>kErrorNone\<close> as
  soon as the loop may run \<open>N\<close> rounds, with the layers as the accepted \<open>Acquire\<close>
  left them. Its calls are \<open>Start\<close>, exactly \<open>N\<close> rounds of \<open>GetNextStrategy\<close> and
  \<open>Acquire\<close>, and \<open>Stop\<close>; the provider is left in the state of its \<open>N\<close>-th call,
  so no further candidate is requested.
\<close>

theorem Prepare_accepts_Nth_candidate:
  assumes "devices s device = Some d" and "strategy_intf s = Some intf"
    and "d1 = d\<lparr>constraints := (constraints d)\<lparr>safe_mode := (safe_mode_flag s \<or> flags (info hw) \<noteq> 0)\<rparr>\<rparr>"
    and "x0 = (hw, strategy s, rm_Start E (res_mgr_device d) (res_mgr s))"
    and "\<forall>i<k. fst (offer E intf d1 (after_offers E intf d1 i x0)) = kErrorNone
              \<and> fst (snd (offer E intf d1 (after_offers E intf d1 i x0))) \<noteq> kErrorNone"
    and "offer E intf d1 (after_offers E intf d1 k x0) = (kErrorNone, kErrorNone, hwN, pN, rN)"
    and "N = Suc k" and "N \<le> n"
  shows "\<exists>s'. Prepare n E device hw s = Some (kErrorNone, hwN, s')
           \<and> strategy s' = pN \<and> res_mgr s' = rm_Stop E (res_mgr_device d) rN
           \<and> map fst (new_calls s s') =
                Call_rm_Start (res_mgr_device d) #
                concat (replicate N [Call_GetNextStrategy intf (constraints d1),
                                     Call_rm_Acquire (res_mgr_device d)]) @
                [Call_rm_Stop (res_mgr_device d)]
           \<and> length (provider_constraints (map fst (new_calls s s'))) = N
           \<and> count_list (map fst (new_calls s s')) (Call_rm_Acquire (res_mgr_device d)) = N"
proof -
  let ?s2 = "(log_call (Call_rm_Start (res_mgr_device d)) (s\<lparr>devices := (devices s)(device \<mapsto> d1)\<rparr>))
                \<lparr>res_mgr := rm_Start E (res_mgr_device d) (res_mgr s)\<rparr>"
  note u = Prepare_unfold [where E = E and n = n, OF assms(1,2,3) refl]
  have x: "(hw, strategy ?s2, res_mgr ?s2) = x0"
    using assms(4) by (simp add: log_call_def)
  from assms(7,8) have fuel: "k < n"
    by simp
  from Prepare_loop_offers [where k = k and E = E and intf = intf and d = d1 and hw = hw and s = ?s2
      and n = n, unfolded x, OF assms(5,6) fuel]
  obtain s3 cs where l: "Prepare_loop n E intf d1 hw ?s2 = Some (Break, hwN, s3)"
    and r: "strategy s3 = pN" "res_mgr s3 = rN"
    and cs: "calls s3 = calls ?s2 @ cs"
    and m: "map fst cs = concat (replicate (Suc k)
              [Call_GetNextStrategy intf (constraints d1), Call_rm_Acquire (res_mgr_device d1)])"
    by blast
  have h: "res_mgr_device d1 = res_mgr_device d"
    using assms(3) by simp
  let ?s' = "(log_call (Call_rm_Stop (res_mgr_device d)) s3)
               \<lparr>res_mgr := rm_Stop E (res_mgr_device d) (res_mgr s3)\<rparr>"
  from u l have p: "Prepare n E device hw s = Some (kErrorNone, hwN, ?s')"
    by simp
  from cs m assms(7) have calls: "map fst (new_calls s ?s') =
      Call_rm_Start (res_mgr_device d) #
      concat (replicate N [Call_GetNextStrategy intf (constraints d1),
                           Call_rm_Acquire (res_mgr_device d)]) @
      [Call_rm_Stop (res_mgr_device d)]"
    by (simp add: new_calls_def log_call_def h)
  show ?thesis
  proof (intro exI conjI)
    show "Prepare n E device hw s = Some (kErrorNone, hwN, ?s')"
      by (rule p)
    show "strategy ?s' = pN"
      using r(1) by (simp add: log_call_def)
    show "res_mgr ?s' = rm_Stop E (res_mgr_device d) rN"
      using r(2) by (simp add: log_call_def)
    show "map fst (new_calls s ?s') =
        Call_rm_Start (res_mgr_device d) #
        concat (replicate N [Call_GetNextStrategy intf (constraints d1),
                             Call_rm_Acquire (res_mgr_device d)]) @
        [Call_rm_Stop (res_mgr_device d)]"
      by (rule calls)
    show "length (provider_constraints (map fst (new_calls s ?s'))) = N"
      unfolding calls by (simp add: provider_constraints_append provider_constraints_rounds)
    show "count_list (map fst (new_calls s ?s')) (Call_rm_Acquire (res_mgr_device d)) = N"
      unfolding calls by (simp add: count_list_rounds)
  qed
qed

theorem Prepare_accepts_Nth_candidate_witness:
  "\<exists>s'. Prepare 3 (stub_collaborators (accept_from 30)) 1 (layers 0)
               (one_display [10, 20, 30, 40])
          = Some (kErrorNone, \<lparr>info = \<lparr>flags = 0, stack = 30\<rparr>, config = 0\<rparr>, s')
        \<and> strategy s' = [40] \<and> res_mgr s' = []
        \<and> map fst (new_calls (one_display [10, 20, 30, 40]) s') =
             [Call_rm_Start 100,
              Call_GetNextStrategy strategy_default \<lparr>safe_mode = True\<rparr>, Call_rm_Acquire 100,
              Call_GetNextStrategy strategy_default \<lparr>safe_mode = True\<rparr>, Call_rm_Acquire 100,
              Call_GetNextStrategy strategy_default \<lparr>safe_mode = True\<rparr>, Call_rm_Acquire 100,
              Call_rm_Stop 100]"
proof -
  let ?E = "stub_collaborators (accept_from 30)"
  let ?s = "one_display [10, 20, 30, 40]"
  let ?d = "\<lparr>constraints = \<lparr>safe_mode = False\<rparr>, res_mgr_device = 100, device_type = kPrimary\<rparr>"
  let ?d1 = "\<lparr>constraints = \<lparr>safe_mode = True\<rparr>, res_mgr_device = 100, device_type = kPrimary\<rparr>"
  let ?x0 = "(layers 0, [10, 20, 30, 40 :: nat], [100 :: nat])"
  have d: "devices ?s 1 = Some ?d"
    and i: "strategy_intf ?s = Some strategy_default"
    by (simp_all add: one_display_eq)
  have d1: "?d1 = ?d\<lparr>constraints := (constraints ?d)
                \<lparr>safe_mode := (safe_mode_flag ?s \<or> flags (info (layers 0)) \<noteq> 0)\<rparr>\<rparr>"
    by (simp add: one_display_eq)
  have x0: "?x0 = (layers 0, strategy ?s, rm_Start ?E (res_mgr_device ?d) (res_mgr ?s))"
    by (simp add: one_display_eq stub_collaborators_def)
  have rej: "\<forall>i<Suc (Suc 0).
      fst (offer ?E strategy_default ?d1 (after_offers ?E strategy_default ?d1 i ?x0)) = kErrorNone
      \<and> fst (snd (offer ?E strategy_default ?d1 (after_offers ?E strategy_default ?d1 i ?x0)))
          \<noteq> kErrorNone"
    by (simp add: All_less_Suc offer_def stub_collaborators_def accept_from_def layers_def)
  have acc: "offer ?E strategy_default ?d1 (after_offers ?E strategy_default ?d1 (Suc (Suc 0)) ?x0)
      = (kErrorNone, kErrorNone, \<lparr>info = \<lparr>flags = 0, stack = 30\<rparr>, config = 0\<rparr>, [40], [100])"
    by (simp add: offer_def stub_collaborators_def accept_from_def layers_def)
  have N: "3 = Suc (Suc (Suc 0))" and fuel: "(3::nat) \<le> 3"
    by simp_all
  from Prepare_accepts_Nth_candidate [OF d i d1 x0 rej acc N fuel]
  show ?thesis
    by (auto simp add: numeral_3_eq_3 stub_collaborators_def)
qed

text \<open>
  C1. The specification wants every \<open>Prepare\<close> to close with \<open>Stop\<close> the session it
  opened with \<open>Start\<close>, also when the provider reports that the strategies are
  exhausted. The source returns from inside the loop on that path, before \<open>Stop\<close>. Here
  the provider has no candidate: \<open>Prepare\<close> returns the provider's error, its calls are
  \<open>Start\<close> and \<open>GetNextStrategy\<close>, and the session of the device is still open at
  the resource manager. (\<open>Prepare_session_open\<close> above says the same of every
  \<open>Prepare\<close> that returns an error.)
\<close>

theorem Prepare_exhausted_leaves_session_open:
  "Prepare 1 (stub_collaborators accept_any) 1 (layers 0) (one_display []) =
     Some (kErrorOther 0, layers 0,
       (one_display [])
       \<lparr>res_mgr := [100],
        devices := [1 \<mapsto> \<lparr>constraints = \<lparr>safe_mode = True\<rparr>, res_mgr_device = 100,
                          device_type = kPrimary\<rparr>],
        calls := calls (one_display []) @
          [(Call_rm_Start 100, 1, 0, True),
           (Call_GetNextStrategy strategy_default \<lparr>safe_mode = True\<rparr>, 1, 0, True)]\<rparr>)
   \<and> session_open 100 False
       [Call_rm_Start 100, Call_GetNextStrategy strategy_default \<lparr>safe_mode = True\<rparr>]"
  by (simp add: Prepare_def PrepareStrategyConstraints_def one_display_eq layers_def
        stub_collaborators_def log_call_def Let_def)

text \<open>
  C2. The specification has \<open>PostCommit\<close> notify the resource manager first and
  update \<open>configured_displays_\<close> and \<open>safe_mode_\<close> afterwards. The source does it the
  other way round. For every live device, \<open>PostCommit\<close> sets the bit of the device's
  type in \<open>configured_displays_\<close>, clears \<open>safe_mode_\<close> if the two sets are now
  equal, and only then calls the resource manager's \<open>PostCommit\<close>: that call, the only
  one, is made with the bit sets and the flag already at their final values.
\<close>

theorem PostCommit_updates_before_notifying:
  assumes "devices s device = Some d"
  shows "\<exists>s'. PostCommit E device hw s = Some s'
           \<and> configured_displays s' = SET_BIT (configured_displays s) (device_index (device_type d))
           \<and> registered_displays s' = registered_displays s
           \<and> safe_mode_flag s' = (safe_mode_flag s \<and> configured_displays s' \<noteq> registered_displays s)
           \<and> new_calls s s' = [(Call_rm_PostCommit (res_mgr_device d),
                 registered_displays s', configured_displays s', safe_mode_flag s')]"
  using assms
  by (simp add: PostCommit_def log_call_def new_calls_def Let_def)

theorem PostCommit_updates_before_notifying_witness:
  "\<exists>s'. PostCommit (stub_collaborators accept_any) 1 (layers 0) (one_display []) = Some s'
        \<and> configured_displays s' = 1 \<and> \<not> safe_mode_flag s'
        \<and> new_calls (one_display []) s' = [(Call_rm_PostCommit 100, 1, 1, False)]"
proof -
  have d: "devices (one_display []) 1 =
      Some \<lparr>constraints = \<lparr>safe_mode = False\<rparr>, res_mgr_device = 100, device_type = kPrimary\<rparr>"
    by (simp add: one_display_eq)
  from PostCommit_updates_before_notifying [OF d, of "stub_collaborators accept_any" "layers 0"]
  show ?thesis
    by (auto simp add: one_display_eq SET_BIT_def)
qed

text \<open>
  The order of the specification fails: with one registered, not yet configured display,
  the resource manager is notified when the bit is already set and the flag already
  cleared, not with the values from before the call.
\<close>

theorem PostCommit_notifies_first_counterexample:
  "map_option (new_calls (one_display []))
     (PostCommit (stub_collaborators accept_any) 1 (layers 0) (one_display []))
     = Some [(Call_rm_PostCommit 100, 1, 1, False)]
   \<and> map_option (new_calls (one_display []))
     (PostCommit (stub_collaborators accept_any) 1 (layers 0) (one_display []))
     \<noteq> Some [(Call_rm_PostCommit 100, registered_displays (one_display []),
                configured_displays (one_display []), safe_mode_flag (one_display []))]
   \<and> configured_displays (one_display []) = 0 \<and> safe_mode_flag (one_display [])"
  by (simp add: PostCommit_def one_display_eq log_call_def new_calls_def SET_BIT_def Let_def)

subsection \<open>Loading the strategy provider\<close>

text \<open>
  \<open>Init\<close> from a manager whose provider pointer is null: when the library is absent,
  the symbol is missing or the entry function leaves the pointer null, the library is
  closed and the built-in provider installed.
\<close>

lemma Init_falls_back_without_interface:
  assumes "fst (rm_Init E hw_res_info (res_mgr s)) = kErrorNone" and "strategy_intf s = None"
    and "dlopen E = None \<or>
         (\<exists>lib. dlopen E = Some lib \<and>
            (dlsym E lib = None \<or> (\<exists>entry. dlsym E lib = Some entry \<and> snd (entry None) = None)))"
  shows "fst (Init E hw_res_info s) = kErrorNone
         \<and> strategy_intf (snd (Init E hw_res_info s)) = Some strategy_default
         \<and> strategy_lib (snd (Init E hw_res_info s)) = None
         \<and> (\<forall>lib. dlopen E = Some lib \<longrightarrow>
               fst (last (calls (snd (Init E hw_res_info s)))) = Call_dlclose lib)"
  using assms
  by (auto simp add: Init_def log_call_def Let_def split: prod.splits)

text \<open>
  C9. The specification has \<open>Init\<close> install the built-in provider and close the
  library whenever loading the external provider fails, also when the entry call fails.
  The source tests the pointer \<open>strategy_intf_\<close>, not the error code of the entry
  function. Here the entry function returns an error after storing a pointer: \<open>Init\<close>
  returns \<open>kErrorNone\<close>, keeps the library open and keeps that pointer as the active
  provider; \<open>dlclose\<close> is not called.
\<close>

theorem Init_keeps_interface_of_failed_entry:
  "fst (failing_GetStrategyInterface None) \<noteq> kErrorNone
   \<and> Init (stub_with_library (Some failing_GetStrategyInterface)) 0 (CompManager_new [] []) =
       (kErrorNone,
        (CompManager_new [] [])
        \<lparr>strategy_lib := Some 7, strategy_intf := Some (strategy_loaded 9),
         calls := [(Call_rm_Init, 0, 0, False), (Call_dlopen, 0, 0, False),
                   (Call_dlsym 7, 0, 0, False), (Call_get_strategy_intf, 0, 0, False)]\<rparr>)"
  by (simp add: Init_def stub_with_library_def stub_collaborators_def
        failing_GetStrategyInterface_def CompManager_new_def log_call_def Let_def)

end
